theory Spec2Isabelle
  imports Main "HOL-Library.Sublist"
begin

section \<open>The session object of \<^verbatim>\<open>native/shared/Database.cpp\<close>\<close>

text \<open>
  The class \<^verbatim>\<open>watermelondb::Database\<close> owns a connection to the storage engine, a
  cache of compiled statements, a set of record keys known to exist, a mutex and a
  "destroyed" flag. Every member function is embedded as a function that takes the
  object's state and returns the new state, together with the way the call ended.
  What the object does to its mutex and to the engine handle is recorded, in program
  order, in a trace.
\<close>

subsection \<open>Data model\<close>

text \<open>A compiled statement \<^verbatim>\<open>sqlite3_stmt *\<close> is an opaque handle.\<close>

type_synonym stmt = nat

text \<open>
  The exceptions that reach a caller. \<^verbatim>\<open>JSError\<close> is the one thrown by this file; the
  other kinds are raised by the engine helpers (section 7 of the specification).
\<close>

datatype error = OpenError string | SqlError string | TxError string | JSError string

text \<open>The calls made on the engine handle \<^verbatim>\<open>db_\<close>.\<close>

datatype call =
    Open string string
  | Exec string
  | Begin
  | Commit
  | Rollback
  | GetUserVersion
  | SetUserVersion int
  | DbConfigReset bool
  | Finalize stmt
  | Close

text \<open>
  A trace entry: the guard \<^verbatim>\<open>mutex_\<close> is taken or released, or the engine handle is
  called and answers with success (\<open>None\<close>) or a failure.
\<close>

datatype event = Lock | Unlock | Call call "error option"

text \<open>
  How a member function ends: it returns, it throws, or the process is stopped by a
  failed \<^verbatim>\<open>assert\<close> (which is not an exception: no handler and no destructor runs).
\<close>

datatype outcome = Returned | Threw error | Aborted

text \<open>
  The engine behind the handle. \<open>store\<close> is what the database file holds: its data and
  the schema version (\<^verbatim>\<open>user_version\<close>). \<open>snapshot\<close> is the store saved when the open
  transaction began, \<open>None\<close> outside a transaction.
\<close>

record 'd engine =
  store :: "'d \<times> int"
  snapshot :: "('d \<times> int) option"
  resetMode :: bool
  isClosed :: bool

text \<open>
  The storage engine is an external collaborator, so its behaviour is a parameter:
  which file contents \<open>openStore\<close> finds at a path, what a batch of SQL leaves in the
  store (\<open>sqlEffect\<close>, also when the batch fails half way), and whether a call fails in
  a given engine state (\<open>fault\<close>).
\<close>

record 'd backend =
  openStore :: "string \<Rightarrow> string \<Rightarrow> error + ('d \<times> int)"
  sqlEffect :: "'d engine \<Rightarrow> string \<Rightarrow> 'd \<times> int"
  fault :: "'d engine \<Rightarrow> call \<Rightarrow> error option"

text \<open>
  The fields of \<^verbatim>\<open>Database\<close> (written without the trailing underscore of the source):
  \<^verbatim>\<open>db_\<close>, \<^verbatim>\<open>isDestroyed_\<close>, \<^verbatim>\<open>cachedStatements_\<close> (an unordered map, held here in its
  iteration order), \<^verbatim>\<open>cachedRecords_\<close> (an unordered set), and the trace.
\<close>

record 'd database =
  db :: "'d engine"
  isDestroyed :: bool
  cachedStatements :: "(string \<times> stmt) list"
  cachedRecords :: "string set"
  trace :: "event list"

text \<open>The events a call added to the trace.\<close>

definition newEvents :: "'d database \<Rightarrow> 'd database \<Rightarrow> event list" where
  "newEvents s s' = drop (length (trace s)) (trace s')"

text \<open>The engine calls among some events, without their answers.\<close>

fun engineCalls :: "event list \<Rightarrow> call list" where
  "engineCalls [] = []"
| "engineCalls (Call c r # evs) = c # engineCalls evs"
| "engineCalls (ev # evs) = engineCalls evs"

subsection \<open>The guard\<close>

text \<open>
  \<^verbatim>\<open>const std::lock_guard<std::mutex> lock(mutex_)\<close> takes the mutex where it is
  declared and releases it when the function returns or an exception leaves it.
\<close>

definition lock :: "'d database \<Rightarrow> 'd database" where
  "lock s = s\<lparr>trace := trace s @ [Lock]\<rparr>"

definition unlock :: "'d database \<Rightarrow> 'd database" where
  "unlock s = s\<lparr>trace := trace s @ [Unlock]\<rparr>"

subsection \<open>Engine helpers\<close>

text \<open>
  Modelled from the spec: the member functions \<^verbatim>\<open>executeMultiple\<close>, \<^verbatim>\<open>beginTransaction\<close>,
  \<^verbatim>\<open>commit\<close>, \<^verbatim>\<open>rollback\<close>, \<^verbatim>\<open>getUserVersion\<close>, \<^verbatim>\<open>setUserVersion\<close> and the class
  \<^verbatim>\<open>SqliteDb\<close> are declared in headers and defined in files that are not part of the
  source at hand. They follow section 6 of the specification: a batch runs
  sequentially and may fail; begin, commit and rollback may fail; a rollback returns
  the store to what it was when the transaction began; the version getter cannot fail;
  close cannot fail. A call that fails leaves the transaction state as it was.
\<close>

definition executeMultiple :: "'d backend \<Rightarrow> string \<Rightarrow> 'd database \<Rightarrow> error option \<times> 'd database" where
  "executeMultiple B sql s =
     (let r = fault B (db s) (Exec sql)
      in (r, s\<lparr>db := (db s)\<lparr>store := sqlEffect B (db s) sql\<rparr>,
                trace := trace s @ [Call (Exec sql) r]\<rparr>))"

definition beginTransaction :: "'d backend \<Rightarrow> 'd database \<Rightarrow> error option \<times> 'd database" where
  "beginTransaction B s =
     (let r = fault B (db s) Begin
      in (r, s\<lparr>db := (if r = None then (db s)\<lparr>snapshot := Some (store (db s))\<rparr> else db s),
                trace := trace s @ [Call Begin r]\<rparr>))"

definition commit :: "'d backend \<Rightarrow> 'd database \<Rightarrow> error option \<times> 'd database" where
  "commit B s =
     (let r = fault B (db s) Commit
      in (r, s\<lparr>db := (if r = None then (db s)\<lparr>snapshot := None\<rparr> else db s),
                trace := trace s @ [Call Commit r]\<rparr>))"

definition rollback :: "'d backend \<Rightarrow> 'd database \<Rightarrow> error option \<times> 'd database" where
  "rollback B s =
     (let r = fault B (db s) Rollback
      in (r, s\<lparr>db := (if r = None
                       then (db s)\<lparr>store := (case snapshot (db s) of
                                                 None \<Rightarrow> store (db s)
                                               | Some saved \<Rightarrow> saved),
                                     snapshot := None\<rparr>
                       else db s),
                trace := trace s @ [Call Rollback r]\<rparr>))"

definition getUserVersion :: "'d backend \<Rightarrow> 'd database \<Rightarrow> int \<times> 'd database" where
  "getUserVersion B s =
     (snd (store (db s)), s\<lparr>trace := trace s @ [Call GetUserVersion None]\<rparr>)"

definition setUserVersion :: "'d backend \<Rightarrow> int \<Rightarrow> 'd database \<Rightarrow> error option \<times> 'd database" where
  "setUserVersion B v s =
     (let r = fault B (db s) (SetUserVersion v)
      in (r, s\<lparr>db := (if r = None then (db s)\<lparr>store := (fst (store (db s)), v)\<rparr> else db s),
                trace := trace s @ [Call (SetUserVersion v) r]\<rparr>))"

text \<open>
  Modelled from the spec: \<^verbatim>\<open>SqliteDb::destroy\<close> (not in the source at hand) closes the
  engine handle; \<^verbatim>\<open>close() -> ()\<close> has no failure.
\<close>

definition SqliteDb_destroy :: "'d database \<Rightarrow> 'd database" where
  "SqliteDb_destroy s =
     s\<lparr>db := (db s)\<lparr>isClosed := True\<rparr>, trace := trace s @ [Call Close None]\<rparr>"

text \<open>
  The engine's C interface. \<^verbatim>\<open>sqlite3_finalize\<close> and \<^verbatim>\<open>sqlite3_db_config\<close> return a
  result code, \<^verbatim>\<open>SQLITE_OK\<close> being 0; a failure is reported as \<^verbatim>\<open>SQLITE_ERROR\<close>, 1.
\<close>

definition SQLITE_OK :: int where
  "SQLITE_OK = 0"

definition sqlite3_finalize :: "'d backend \<Rightarrow> stmt \<Rightarrow> 'd database \<Rightarrow> int \<times> 'd database" where
  "sqlite3_finalize B st s =
     (let r = fault B (db s) (Finalize st)
      in (if r = None then SQLITE_OK else 1, s\<lparr>trace := trace s @ [Call (Finalize st) r]\<rparr>))"

definition sqlite3_db_config_reset :: "'d backend \<Rightarrow> bool \<Rightarrow> 'd database \<Rightarrow> int \<times> 'd database" where
  "sqlite3_db_config_reset B flag s =
     (let r = fault B (db s) (DbConfigReset flag)
      in (if r = None then SQLITE_OK else 1,
          s\<lparr>db := (if r = None then (db s)\<lparr>resetMode := flag\<rparr> else db s),
            trace := trace s @ [Call (DbConfigReset flag) r]\<rparr>))"

subsection \<open>The record cache\<close>

text \<open>
  \<^verbatim>\<open>isCached\<close>, \<^verbatim>\<open>markAsCached\<close> and \<^verbatim>\<open>removeFromCache\<close> are one statement each on
  \<^verbatim>\<open>cachedRecords_\<close>. \<^verbatim>\<open>isCached\<close> is not a \<^verbatim>\<open>const\<close> member, so it returns the state too.
\<close>

definition isCached :: "string \<Rightarrow> 'd database \<Rightarrow> bool \<times> 'd database" where
  "isCached cacheKey s = (cacheKey \<in> cachedRecords s, s)"

definition markAsCached :: "string \<Rightarrow> 'd database \<Rightarrow> 'd database" where
  "markAsCached cacheKey s = s\<lparr>cachedRecords := insert cacheKey (cachedRecords s)\<rparr>"

definition removeFromCache :: "string \<Rightarrow> 'd database \<Rightarrow> 'd database" where
  "removeFromCache cacheKey s = s\<lparr>cachedRecords := cachedRecords s - {cacheKey}\<rparr>"

subsection \<open>Construction\<close>



subsection \<open>Destruction\<close>

text \<open>
  The loop of \<^verbatim>\<open>destroy\<close> over \<^verbatim>\<open>cachedStatements_\<close>: the result code of
  \<^verbatim>\<open>sqlite3_finalize\<close> is dropped.
\<close>

fun finalizeAll :: "'d backend \<Rightarrow> (string \<times> stmt) list \<Rightarrow> 'd database \<Rightarrow> 'd database" where
  "finalizeAll B [] s = s"
| "finalizeAll B (cachedStatement # rest) s =
     (let statement = snd cachedStatement
      in finalizeAll B rest (snd (sqlite3_finalize B statement s)))"

definition destroy :: "'d backend \<Rightarrow> 'd database \<Rightarrow> 'd database" where
  "destroy B s0 =
     (let s1 = lock s0
      in if isDestroyed s1 then unlock s1
         else (let s2 = s1\<lparr>isDestroyed := True\<rparr>;
                   s3 = finalizeAll B (cachedStatements s2) s2;
                   s4 = s3\<lparr>cachedStatements := []\<rparr>;
                   s5 = SqliteDb_destroy s4
               in unlock s5))"

subsection \<open>Reset and migration\<close>

text \<open>
  The handler \<^verbatim>\<open>catch (const std::exception &ex) { rollback(); throw; }\<close> of both
  functions: the caught exception is thrown again, unless \<^verbatim>\<open>rollback\<close> throws first.
\<close>

definition rollbackAndRethrow :: "'d backend \<Rightarrow> error \<Rightarrow> 'd database \<Rightarrow> outcome \<times> 'd database" where
  "rollbackAndRethrow B ex s =
     (case rollback B s of
        (Some e, s') \<Rightarrow> (Threw e, s')
      | (None, s') \<Rightarrow> (Threw ex, s'))"

text \<open>The \<^verbatim>\<open>try\<close> block of \<^verbatim>\<open>unsafeResetDatabase\<close>.\<close>

definition resetTry :: "'d backend \<Rightarrow> string \<Rightarrow> int \<Rightarrow> 'd database \<Rightarrow> outcome \<times> 'd database" where
  "resetTry B schema schemaVersion s0 =
     (let s1 = s0\<lparr>cachedRecords := {}\<rparr>
      in case executeMultiple B schema s1 of
           (Some e, s2) \<Rightarrow> (Threw e, s2)
         | (None, s2) \<Rightarrow>
             (case setUserVersion B schemaVersion s2 of
                (Some e, s3) \<Rightarrow> (Threw e, s3)
              | (None, s3) \<Rightarrow>
                  (case commit B s3 of
                     (Some e, s4) \<Rightarrow> (Threw e, s4)
                   | (None, s4) \<Rightarrow> (Returned, s4))))"

definition unsafeResetDatabase :: "'d backend \<Rightarrow> string \<Rightarrow> int \<Rightarrow> 'd database \<Rightarrow> outcome \<times> 'd database" where
  "unsafeResetDatabase B schema schemaVersion s0 =
     (let s1 = lock s0;
          (rc1, s2) = sqlite3_db_config_reset B True s1
      in if rc1 \<noteq> SQLITE_OK
         then (Threw (JSError ''Failed to enable reset database mode''), unlock s2)
         else (case executeMultiple B ''vacuum'' s2 of
                 (Some e, s3) \<Rightarrow> (Threw e, unlock s3)
               | (None, s3) \<Rightarrow>
                   (let (rc2, s4) = sqlite3_db_config_reset B False s3
                    in if rc2 \<noteq> SQLITE_OK
                       then (Threw (JSError ''Failed to disable reset database mode''), unlock s4)
                       else (case beginTransaction B s4 of
                               (Some e, s5) \<Rightarrow> (Threw e, unlock s5)
                             | (None, s5) \<Rightarrow>
                                 (case resetTry B schema schemaVersion s5 of
                                    (Threw ex, s6) \<Rightarrow>
                                      (let (r, s7) = rollbackAndRethrow B ex s6 in (r, unlock s7))
                                  | (r, s6) \<Rightarrow> (r, unlock s6))))))"

text \<open>
  The \<^verbatim>\<open>try\<close> block of \<^verbatim>\<open>migrate\<close>. \<open>ndebug\<close> says whether the build defines
  \<^verbatim>\<open>NDEBUG\<close>: then \<^verbatim>\<open>assert\<close> expands to nothing and its argument is not evaluated;
  otherwise a false argument stops the process.
\<close>

definition migrateTry :: "'d backend \<Rightarrow> bool \<Rightarrow> string \<Rightarrow> int \<Rightarrow> int \<Rightarrow> 'd database \<Rightarrow> outcome \<times> 'd database" where
  "migrateTry B ndebug migrationSql fromVersion toVersion s0 =
     (let (asserted, s1) = (if ndebug then (True, s0)
                            else (let (v, s) = getUserVersion B s0 in (v = fromVersion, s)))
      in if \<not> asserted then (Aborted, s1)
         else (case executeMultiple B migrationSql s1 of
                 (Some e, s2) \<Rightarrow> (Threw e, s2)
               | (None, s2) \<Rightarrow>
                   (case setUserVersion B toVersion s2 of
                      (Some e, s3) \<Rightarrow> (Threw e, s3)
                    | (None, s3) \<Rightarrow>
                        (case commit B s3 of
                           (Some e, s4) \<Rightarrow> (Threw e, s4)
                         | (None, s4) \<Rightarrow> (Returned, s4)))))"

definition migrate :: "'d backend \<Rightarrow> bool \<Rightarrow> string \<Rightarrow> int \<Rightarrow> int \<Rightarrow> 'd database \<Rightarrow> outcome \<times> 'd database" where
  "migrate B ndebug migrationSql fromVersion toVersion s0 =
     (let s1 = lock s0
      in case beginTransaction B s1 of
           (Some e, s2) \<Rightarrow> (Threw e, unlock s2)
         | (None, s2) \<Rightarrow>
             (case migrateTry B ndebug migrationSql fromVersion toVersion s2 of
                (Threw ex, s3) \<Rightarrow>
                  (let (r, s4) = rollbackAndRethrow B ex s3 in (r, unlock s4))
              | (Aborted, s3) \<Rightarrow> (Aborted, s3)
              | (Returned, s3) \<Rightarrow> (Returned, unlock s3)))"

subsection \<open>A concrete engine and session\<close>

text \<open>
  An engine whose data is the list of batches applied to it. The batch \<^verbatim>\<open>BAD\<close> fails
  (after it has changed the store), finalizing statement 11 reports an error, a
  \<^verbatim>\<open>vacuum\<close> in reset mode empties the file, and every call on a closed handle
  fails; everything else succeeds.
\<close>

definition demoBackend :: "string list backend" where
  "demoBackend =
     \<lparr>openStore = (\<lambda>path password. Inr ([], 0)),
      sqlEffect = (\<lambda>e sql. if resetMode e \<and> sql = ''vacuum'' then ([], 0)
                            else (fst (store e) @ [sql], snd (store e))),
      fault = (\<lambda>e c. if isClosed e then Some (SqlError ''library routine called out of sequence'')
                      else if c = Exec ''BAD'' then Some (SqlError ''syntax error'')
                      else if c = Finalize 11 then Some (SqlError ''finalize'')
                      else None)\<rparr>"

definition demoSession :: "string list database" where
  "demoSession =
     \<lparr>db = \<lparr>store = ([''CREATE TABLE t(id INTEGER)''], 3), snapshot = None,
            resetMode = False, isClosed = False\<rparr>,
      isDestroyed = False,
      cachedStatements = [(''select 1'', 11), (''select 2'', 12)],
      cachedRecords = {''t$1''},
      trace = []\<rparr>"

subsection \<open>Vocabulary of the properties\<close>


text \<open>
  Events that form one critical section: the guard is taken, then there are engine
  calls only, then the guard is released and nothing follows.
\<close>

fun callsThenUnlock :: "event list \<Rightarrow> bool" where
  "callsThenUnlock [] = False"
| "callsThenUnlock (Call c r # evs) = callsThenUnlock evs"
| "callsThenUnlock (Unlock # evs) = (evs = [])"
| "callsThenUnlock (Lock # evs) = False"

fun criticalSection :: "event list \<Rightarrow> bool" where
  "criticalSection (Lock # evs) = callsThenUnlock evs"
| "criticalSection evs = False"

text \<open>A sequence of calls of the three cache functions.\<close>

datatype cacheOp = IsCached string | MarkAsCached string | RemoveFromCache string

fun applyCacheOp :: "cacheOp \<Rightarrow> 'd database \<Rightarrow> 'd database" where
  "applyCacheOp (IsCached k) s = snd (isCached k s)"
| "applyCacheOp (MarkAsCached k) s = markAsCached k s"
| "applyCacheOp (RemoveFromCache k) s = removeFromCache k s"

fun runCacheOps :: "cacheOp list \<Rightarrow> 'd database \<Rightarrow> 'd database" where
  "runCacheOps [] s = s"
| "runCacheOps (op # ops) s = runCacheOps ops (applyCacheOp op s)"









section \<open>Auxiliary facts\<close>

lemmas helper_defs =
  executeMultiple_def beginTransaction_def commit_def rollback_def getUserVersion_def
  setUserVersion_def sqlite3_db_config_reset_def lock_def unlock_def SQLITE_OK_def

lemmas op_defs =
  migrate_def migrateTry_def unsafeResetDatabase_def resetTry_def rollbackAndRethrow_def

lemmas demo_defs = demoBackend_def demoSession_def

lemma newEvents_app [simp]: "trace s' = trace s @ evs \<Longrightarrow> newEvents s s' = evs"
  by (simp add: newEvents_def)

lemma newEvents_same [simp]: "trace s' = trace s \<Longrightarrow> newEvents s s' = []"
  by (simp add: newEvents_def)

lemma engineCalls_append: "engineCalls (xs @ ys) = engineCalls xs @ engineCalls ys"
  by (induction xs rule: engineCalls.induct) simp_all

lemma engineCalls_finalizes:
  "engineCalls (map (\<lambda>cs. Call (Finalize (snd cs)) (f cs)) xs) = map (\<lambda>cs. Finalize (snd cs)) xs"
  by (induction xs) simp_all

lemma engineCalls_guard_only: "engineCalls (concat (replicate n [Lock, Unlock])) = []"
  by (induction n) simp_all

lemma callsThenUnlock_finalizes:
  "callsThenUnlock (map (\<lambda>cs. Call (Finalize (snd cs)) (f cs)) xs @ evs) = callsThenUnlock evs"
  by (induction xs) simp_all

subsection \<open>Destruction\<close>

lemma finalizeAll_eq:
  "finalizeAll B xs s =
     s\<lparr>trace := trace s @ map (\<lambda>cs. Call (Finalize (snd cs)) (fault B (db s) (Finalize (snd cs)))) xs\<rparr>"
  by (induction xs arbitrary: s) (simp_all add: sqlite3_finalize_def Let_def)

lemma destroy_live:
  "\<not> isDestroyed s \<Longrightarrow>
   destroy B s =
     s\<lparr>db := (db s)\<lparr>isClosed := True\<rparr>, isDestroyed := True, cachedStatements := [],
       trace := trace s @ Lock #
          map (\<lambda>cs. Call (Finalize (snd cs)) (fault B (db s) (Finalize (snd cs)))) (cachedStatements s)
          @ [Call Close None, Unlock]\<rparr>"
  by (simp add: destroy_def lock_def unlock_def SqliteDb_destroy_def finalizeAll_eq Let_def)

lemma destroy_destroyed:
  "isDestroyed s \<Longrightarrow> destroy B s = s\<lparr>trace := trace s @ [Lock, Unlock]\<rparr>"
  by (simp add: destroy_def lock_def unlock_def Let_def)

lemma destroy_again:
  "isDestroyed s \<Longrightarrow>
   (destroy B ^^ n) s = s\<lparr>trace := trace s @ concat (replicate n [Lock, Unlock])\<rparr>"
proof (induction n arbitrary: s)
  case 0
  then show ?case by simp
next
  case (Suc n)
  have "(destroy B ^^ Suc n) s = (destroy B ^^ n) (destroy B s)"
    by (simp only: funpow_Suc_right o_apply)
  also have "\<dots> = (destroy B ^^ n) (s\<lparr>trace := trace s @ [Lock, Unlock]\<rparr>)"
    using Suc.prems by (simp add: destroy_destroyed)
  also have "\<dots> = s\<lparr>trace := trace s @ concat (replicate (Suc n) [Lock, Unlock])\<rparr>"
    using Suc.prems Suc.IH[of "s\<lparr>trace := trace s @ [Lock, Unlock]\<rparr>"] by simp
  finally show ?case .
qed

subsection \<open>Reset and migration, path by path\<close>

lemma migrate_mismatch_aborts:
  "\<not> ndebug \<Longrightarrow> snd (store (db s)) \<noteq> fromVersion \<Longrightarrow> fault B (db s) Begin = None \<Longrightarrow>
   migrate B ndebug migrationSql fromVersion toVersion s = (r, s') \<Longrightarrow>
   r = Aborted \<and> newEvents s s' = [Lock, Call Begin None, Call GetUserVersion None]
   \<and> store (db s') = store (db s) \<and> cachedRecords s' = cachedRecords s"
  by (auto simp: op_defs helper_defs Let_def split: option.splits prod.splits)

lemma migrateTry_ndebug:
  "migrateTry B True sql fromV toV s = migrateTry B True sql fromV' toV s"
  by (simp add: migrateTry_def)

lemma migrate_ndebug_ignores_from:
  "migrate B True migrationSql fromVersion toVersion s = migrate B True migrationSql fromVersion' toVersion s"
  unfolding migrate_def migrateTry_ndebug[where fromV = fromVersion and fromV' = fromVersion']
  by (rule refl)





lemma reset_returned:
  "unsafeResetDatabase B schema schemaVersion s = (Returned, s') \<Longrightarrow>
   snd (store (db s')) = schemaVersion \<and> cachedRecords s' = {}"
  by (auto simp: op_defs helper_defs Let_def split: option.splits prod.splits if_splits)

lemma migrate_section:
  "migrate B nd sql fromV toV s = (r, s') \<Longrightarrow> r \<noteq> Aborted \<Longrightarrow> criticalSection (newEvents s s')"
  by (auto simp: op_defs helper_defs Let_def split: option.splits prod.splits if_splits)

lemma reset_section:
  "unsafeResetDatabase B schema v s = (r, s') \<Longrightarrow> criticalSection (newEvents s s')"
  by (auto simp: op_defs helper_defs Let_def split: option.splits prod.splits if_splits)

lemma migrate_first_call:
  "migrate B nd sql fromV toV s = (r, s') \<Longrightarrow>
   take 2 (newEvents s s') = [Lock, Call Begin (fault B (db s) Begin)]"
  by (auto simp: op_defs helper_defs Let_def split: option.splits prod.splits if_splits)

lemma reset_first_call:
  "unsafeResetDatabase B schema v s = (r, s') \<Longrightarrow>
   take 2 (newEvents s s') = [Lock, Call (DbConfigReset True) (fault B (db s) (DbConfigReset True))]"
  by (auto simp: op_defs helper_defs Let_def split: option.splits prod.splits if_splits)

subsection \<open>The cache and the script\<close>

lemma runCacheOps_member:
  "MarkAsCached k \<notin> set ops \<Longrightarrow> RemoveFromCache k \<notin> set ops \<Longrightarrow>
   (k \<in> cachedRecords (runCacheOps ops s)) = (k \<in> cachedRecords s)"
proof (induction ops arbitrary: s)
  case Nil
  then show ?case by simp
next
  case (Cons op ops)
  then show ?case
    by (cases op) (auto simp: isCached_def markAsCached_def removeFromCache_def)
qed







subsection \<open>The concrete session, evaluated\<close>

lemma demo_destroyed:
  "destroy demoBackend demoSession =
     \<lparr>db = \<lparr>store = ([''CREATE TABLE t(id INTEGER)''], 3), snapshot = None,
            resetMode = False, isClosed = True\<rparr>,
      isDestroyed = True, cachedStatements = [], cachedRecords = {''t$1''},
      trace = [Lock, Call (Finalize 11) (Some (SqlError ''finalize'')), Call (Finalize 12) None,
               Call Close None, Unlock]\<rparr>"
  by (simp add: destroy_live demo_defs)

lemma demo_migrate_bad:
  "migrate demoBackend False ''BAD'' 3 4 demoSession =
     (Threw (SqlError ''syntax error''),
      demoSession\<lparr>trace := [Lock, Call Begin None, Call GetUserVersion None,
                            Call (Exec ''BAD'') (Some (SqlError ''syntax error'')),
                            Call Rollback None, Unlock]\<rparr>)"
  by (simp add: op_defs helper_defs demo_defs Let_def)



lemma demo_reset_ok:
  "unsafeResetDatabase demoBackend ''CREATE TABLE u(id INTEGER)'' 7 demoSession =
     (Returned,
      demoSession\<lparr>db := (db demoSession)\<lparr>store := ([''CREATE TABLE u(id INTEGER)''], 7)\<rparr>,
                  cachedRecords := {},
                  trace := [Lock, Call (DbConfigReset True) None, Call (Exec ''vacuum'') None,
                            Call (DbConfigReset False) None, Call Begin None,
                            Call (Exec ''CREATE TABLE u(id INTEGER)'') None,
                            Call (SetUserVersion 7) None, Call Commit None, Unlock]\<rparr>)"
  by (simp add: op_defs helper_defs demo_defs Let_def)

lemma demo_newEvents: "newEvents demoSession s' = trace s'"
  by (simp add: newEvents_def demoSession_def)

section \<open>The claims\<close>

subsection \<open>C1: migration from the wrong version\<close>

text \<open>
  C1 says that every \<^verbatim>\<open>migrate\<close> on a session whose schema version is not
  \<open>fromVersion\<close> fails with the assertion error, never runs the batch and leaves version
  and data as they were. The check is an \<^verbatim>\<open>assert\<close>: in a build that defines
  \<^verbatim>\<open>NDEBUG\<close> it is compiled out. On the concrete session (version 3) a migration
  "from 5 to 6" then returns normally, has run its batch and has set the version to 6.
\<close>

theorem migrate_version_mismatch_counterexample:
  "snd (store (db demoSession)) \<noteq> 5
 \<and> fst (migrate demoBackend True ''ALTER TABLE t ADD c'' 5 6 demoSession) = Returned
 \<and> engineCalls (newEvents demoSession (snd (migrate demoBackend True ''ALTER TABLE t ADD c'' 5 6 demoSession)))
      = [Begin, Exec ''ALTER TABLE t ADD c'', SetUserVersion 6, Commit]
 \<and> store (db (snd (migrate demoBackend True ''ALTER TABLE t ADD c'' 5 6 demoSession)))
      = ([''CREATE TABLE t(id INTEGER)'', ''ALTER TABLE t ADD c''], 6)"
  by (simp add: op_defs helper_defs demo_defs Let_def)

text \<open>
  C1, as the code has it: in a build with assertions (\<^verbatim>\<open>NDEBUG\<close> not defined), a
  \<^verbatim>\<open>migrate\<close> whose transaction has begun on a session whose schema version is not
  \<open>fromVersion\<close> ends in the failed assertion, which stops the process: the only engine
  calls are the begin and the version read (no batch, no rollback, and the guard is not
  released), and the stored version and data and the record cache are as before the
  call. In a build with \<^verbatim>\<open>NDEBUG\<close> the outcome of \<^verbatim>\<open>migrate\<close> does not depend on
  \<open>fromVersion\<close> at all.
\<close>

theorem migrate_version_mismatch:
  "(\<not> ndebug \<and> snd (store (db s)) \<noteq> fromVersion \<and> fault B (db s) Begin = None
    \<and> migrate B ndebug migrationSql fromVersion toVersion s = (r, s')
    \<longrightarrow> r = Aborted
      \<and> newEvents s s' = [Lock, Call Begin None, Call GetUserVersion None]
      \<and> store (db s') = store (db s)
      \<and> cachedRecords s' = cachedRecords s)
 \<and> migrate B True migrationSql fromVersion toVersion s
      = migrate B True migrationSql fromVersion' toVersion s"
  using migrate_mismatch_aborts[of ndebug s fromVersion B migrationSql toVersion r s']
        migrate_ndebug_ignores_from[of B migrationSql fromVersion toVersion s fromVersion']
  by blast

theorem migrate_version_mismatch_witness:
  "snd (store (db demoSession)) \<noteq> 5
 \<and> fault demoBackend (db demoSession) Begin = None
 \<and> fst (migrate demoBackend False ''ALTER TABLE t ADD c'' 5 6 demoSession) = Aborted
 \<and> newEvents demoSession (snd (migrate demoBackend False ''ALTER TABLE t ADD c'' 5 6 demoSession))
      = [Lock, Call Begin None, Call GetUserVersion None]
 \<and> store (db (snd (migrate demoBackend False ''ALTER TABLE t ADD c'' 5 6 demoSession)))
      = ([''CREATE TABLE t(id INTEGER)''], 3)"
proof -
  have v: "snd (store (db demoSession)) \<noteq> 5" by (simp add: demoSession_def)
  have b: "fault demoBackend (db demoSession) Begin = None" by (simp add: demo_defs)
  have s: "store (db demoSession) = ([''CREATE TABLE t(id INTEGER)''], 3)"
    by (simp add: demoSession_def)
  show ?thesis
    using v b s
      migrate_version_mismatch[of False demoSession 5 demoBackend "''ALTER TABLE t ADD c''" 6
        "fst (migrate demoBackend False ''ALTER TABLE t ADD c'' 5 6 demoSession)"
        "snd (migrate demoBackend False ''ALTER TABLE t ADD c'' 5 6 demoSession)" 5]
    by simp
qed

subsection \<open>C2: failure inside the transaction\<close>




subsection \<open>C3: who takes the guard\<close>

text \<open>
  C3 says that \<^verbatim>\<open>isCached\<close>, \<^verbatim>\<open>markAsCached\<close> and \<^verbatim>\<open>removeFromCache\<close> hold the
  session's guard for their full duration. None of the three declares a
  \<^verbatim>\<open>lock_guard\<close>: on the concrete session each runs without a single guard event,
  and the two mutators do change the cache.
\<close>

theorem guard_usage_counterexample:
  "newEvents demoSession (snd (isCached ''t$1'' demoSession)) = []
 \<and> newEvents demoSession (markAsCached ''t$2'' demoSession) = []
 \<and> newEvents demoSession (removeFromCache ''t$1'' demoSession) = []
 \<and> cachedRecords (markAsCached ''t$2'' demoSession) \<noteq> cachedRecords demoSession
 \<and> cachedRecords (removeFromCache ''t$1'' demoSession) \<noteq> cachedRecords demoSession"
  by (simp add: isCached_def markAsCached_def removeFromCache_def demo_newEvents)
     (simp add: demoSession_def)

text \<open>
  C3, as the code has it: the three cache functions perform no guard operation (and no
  engine call) at all. The guard is taken by \<^verbatim>\<open>destroy\<close>, \<^verbatim>\<open>unsafeResetDatabase\<close> and
  \<^verbatim>\<open>migrate\<close>, for their full duration: what each of them does is one critical section,
  the guard taken first, engine calls only, the guard released last (a \<^verbatim>\<open>migrate\<close>
  stopped by its assertion never releases it).
\<close>

theorem guard_usage:
  "newEvents s (snd (isCached k s)) = []
 \<and> newEvents s (markAsCached k s) = []
 \<and> newEvents s (removeFromCache k s) = []
 \<and> criticalSection (newEvents s (destroy B s))
 \<and> (fst (migrate B ndebug migrationSql fromVersion toVersion s) \<noteq> Aborted \<longrightarrow>
      criticalSection (newEvents s (snd (migrate B ndebug migrationSql fromVersion toVersion s))))
 \<and> criticalSection (newEvents s (snd (unsafeResetDatabase B schema schemaVersion s)))"
proof -
  have 1: "criticalSection (newEvents s (destroy B s))"
    by (cases "isDestroyed s") (simp_all add: destroy_live destroy_destroyed callsThenUnlock_finalizes)
  have 2: "fst (migrate B ndebug migrationSql fromVersion toVersion s) \<noteq> Aborted \<longrightarrow>
      criticalSection (newEvents s (snd (migrate B ndebug migrationSql fromVersion toVersion s)))"
    using migrate_section[of B ndebug migrationSql fromVersion toVersion s]
    by (cases "migrate B ndebug migrationSql fromVersion toVersion s") simp
  have 3: "criticalSection (newEvents s (snd (unsafeResetDatabase B schema schemaVersion s)))"
    using reset_section[of B schema schemaVersion s]
    by (cases "unsafeResetDatabase B schema schemaVersion s") simp
  show ?thesis using 1 2 3 by (simp add: isCached_def markAsCached_def removeFromCache_def)
qed

theorem guard_usage_witness:
  "fst (migrate demoBackend False ''BAD'' 3 4 demoSession) \<noteq> Aborted
 \<and> criticalSection (newEvents demoSession (snd (migrate demoBackend False ''BAD'' 3 4 demoSession)))
 \<and> newEvents demoSession (markAsCached ''t$2'' demoSession) = []"
proof -
  have f: "fst (migrate demoBackend False ''BAD'' 3 4 demoSession) \<noteq> Aborted"
    by (simp add: demo_migrate_bad)
  show ?thesis
    using f guard_usage[of demoSession "''t$2''" demoBackend False "''BAD''" 3 4]
    by blast
qed

subsection \<open>C4: after destruction\<close>

text \<open>
  C4 says that once \<^verbatim>\<open>destroy\<close> has completed, no later operation touches the engine
  handle, \<^verbatim>\<open>migrate\<close> and \<^verbatim>\<open>resetDatabase\<close> included. Only \<^verbatim>\<open>destroy\<close> reads the flag
  \<^verbatim>\<open>isDestroyed_\<close>. On the destroyed concrete session \<^verbatim>\<open>migrate\<close> calls the closed
  handle to begin a transaction, and \<^verbatim>\<open>unsafeResetDatabase\<close> calls it to switch the
  reset mode on.
\<close>

theorem after_destroy_counterexample:
  "isDestroyed (destroy demoBackend demoSession)
 \<and> engineCalls (newEvents (destroy demoBackend demoSession)
      (snd (migrate demoBackend False ''ALTER TABLE t ADD c'' 3 4 (destroy demoBackend demoSession))))
    = [Begin]
 \<and> engineCalls (newEvents (destroy demoBackend demoSession)
      (snd (unsafeResetDatabase demoBackend ''CREATE TABLE u(id INTEGER)'' 7 (destroy demoBackend demoSession))))
    = [DbConfigReset True]"
  unfolding demo_destroyed by (simp add: op_defs helper_defs demoBackend_def Let_def)

text \<open>
  C4, as the code has it: on a session whose \<^verbatim>\<open>destroy\<close> has completed, a further
  \<^verbatim>\<open>destroy\<close> and the three cache functions make no engine call. \<^verbatim>\<open>migrate\<close> and
  \<^verbatim>\<open>unsafeResetDatabase\<close> do not look at the flag: right after taking the guard,
  \<^verbatim>\<open>migrate\<close> asks the engine to begin a transaction and \<^verbatim>\<open>unsafeResetDatabase\<close> asks it
  to enable the reset mode.
\<close>

theorem after_destroy:
  "isDestroyed s \<longrightarrow>
     engineCalls (newEvents s (destroy B s)) = []
   \<and> engineCalls (newEvents s (snd (isCached k s))) = []
   \<and> engineCalls (newEvents s (markAsCached k s)) = []
   \<and> engineCalls (newEvents s (removeFromCache k s)) = []
   \<and> take 2 (newEvents s (snd (migrate B ndebug migrationSql fromVersion toVersion s)))
        = [Lock, Call Begin (fault B (db s) Begin)]
   \<and> take 2 (newEvents s (snd (unsafeResetDatabase B schema schemaVersion s)))
        = [Lock, Call (DbConfigReset True) (fault B (db s) (DbConfigReset True))]"
proof -
  have 1: "take 2 (newEvents s (snd (migrate B ndebug migrationSql fromVersion toVersion s)))
        = [Lock, Call Begin (fault B (db s) Begin)]"
    using migrate_first_call[of B ndebug migrationSql fromVersion toVersion s]
    by (cases "migrate B ndebug migrationSql fromVersion toVersion s") simp
  have 2: "take 2 (newEvents s (snd (unsafeResetDatabase B schema schemaVersion s)))
        = [Lock, Call (DbConfigReset True) (fault B (db s) (DbConfigReset True))]"
    using reset_first_call[of B schema schemaVersion s]
    by (cases "unsafeResetDatabase B schema schemaVersion s") simp
  show ?thesis using 1 2
    by (simp add: destroy_destroyed isCached_def markAsCached_def removeFromCache_def)
qed

theorem after_destroy_witness:
  "isDestroyed (destroy demoBackend demoSession)
 \<and> engineCalls (newEvents (destroy demoBackend demoSession)
      (destroy demoBackend (destroy demoBackend demoSession))) = []
 \<and> take 2 (newEvents (destroy demoBackend demoSession)
      (snd (migrate demoBackend False ''ALTER TABLE t ADD c'' 3 4 (destroy demoBackend demoSession))))
    = [Lock, Call Begin (Some (SqlError ''library routine called out of sequence''))]"
proof -
  have d: "isDestroyed (destroy demoBackend demoSession)"
    by (simp add: demo_destroyed)
  have b: "fault demoBackend (db (destroy demoBackend demoSession)) Begin
             = Some (SqlError ''library routine called out of sequence'')"
    unfolding demo_destroyed by (simp add: demoBackend_def)
  show ?thesis
    using d after_destroy[of "destroy demoBackend demoSession" demoBackend _ False
        "''ALTER TABLE t ADD c''" 3 4]
    unfolding b by blast
qed

subsection \<open>C5: destroying more than once\<close>

text \<open>
  C5: for a session that is not yet destroyed and every \<open>N > 1\<close>, calling \<^verbatim>\<open>destroy\<close>
  \<open>N\<close> times finalizes every cached statement and closes the engine handle exactly once
  (these are all the engine calls of the \<open>N\<close> calls together), and every call after the
  first only takes and releases the guard: the state after \<open>N\<close> calls is the state after
  the first one with \<open>N - 1\<close> such pairs added to the trace. \<^verbatim>\<open>destroy\<close> has no failing
  path, so each call returns.
\<close>

theorem destroy_repeated:
  assumes "\<not> isDestroyed s" and "1 < N"
  shows "engineCalls (newEvents s ((destroy B ^^ N) s))
           = map (\<lambda>cs. Finalize (snd cs)) (cachedStatements s) @ [Close]
       \<and> (destroy B ^^ N) s
           = (destroy B s)\<lparr>trace := trace (destroy B s) @ concat (replicate (N - 1) [Lock, Unlock])\<rparr>
       \<and> cachedStatements (destroy B s) = []
       \<and> (\<forall>s'. isDestroyed s' \<longrightarrow> destroy B s' = s'\<lparr>trace := trace s' @ [Lock, Unlock]\<rparr>)"
proof -
  obtain n where N: "N = Suc n" using assms(2) by (cases N) auto
  have d: "isDestroyed (destroy B s)" using assms(1) by (simp add: destroy_live)
  have "(destroy B ^^ N) s = (destroy B ^^ n) (destroy B s)"
    unfolding N by (simp only: funpow_Suc_right o_apply)
  then have eq: "(destroy B ^^ N) s
      = (destroy B s)\<lparr>trace := trace (destroy B s) @ concat (replicate (N - 1) [Lock, Unlock])\<rparr>"
    using destroy_again[OF d, where B = B and n = n] N by simp
  have "engineCalls (newEvents s ((destroy B ^^ N) s))
           = map (\<lambda>cs. Finalize (snd cs)) (cachedStatements s) @ [Close]"
    unfolding eq using assms(1)
    by (simp add: destroy_live engineCalls_append engineCalls_finalizes engineCalls_guard_only)
  moreover have "cachedStatements (destroy B s) = []"
    using assms(1) by (simp add: destroy_live)
  ultimately show ?thesis using eq by (simp add: destroy_destroyed)
qed

theorem destroy_repeated_witness:
  "\<not> isDestroyed demoSession \<and> (1::nat) < 3
 \<and> engineCalls (newEvents demoSession ((destroy demoBackend ^^ 3) demoSession))
      = [Finalize 11, Finalize 12, Close]
 \<and> trace ((destroy demoBackend ^^ 3) demoSession)
      = [Lock, Call (Finalize 11) (Some (SqlError ''finalize'')), Call (Finalize 12) None,
         Call Close None, Unlock, Lock, Unlock, Lock, Unlock]"
proof -
  have a: "\<not> isDestroyed demoSession" by (simp add: demoSession_def)
  have c: "cachedStatements demoSession = [(''select 1'', 11), (''select 2'', 12)]"
    by (simp add: demoSession_def)
  have n: "(1::nat) < 3" by simp
  have r: "concat (replicate (3 - 1) [Lock, Unlock]) = [Lock, Unlock, Lock, Unlock]"
    by (simp add: numeral_2_eq_2)
  note T = destroy_repeated[OF a n, of demoBackend]
  have e: "engineCalls (newEvents demoSession ((destroy demoBackend ^^ 3) demoSession))
             = [Finalize 11, Finalize 12, Close]"
    by (simp only: T[THEN conjunct1] c list.map snd_conv append_Cons append_Nil)
  have "trace ((destroy demoBackend ^^ 3) demoSession)
          = trace (destroy demoBackend demoSession) @ concat (replicate (3 - 1) [Lock, Unlock])"
    by (subst T[THEN conjunct2, THEN conjunct1]) simp
  then have t: "trace ((destroy demoBackend ^^ 3) demoSession)
      = [Lock, Call (Finalize 11) (Some (SqlError ''finalize'')), Call (Finalize 12) None,
         Call Close None, Unlock, Lock, Unlock, Lock, Unlock]"
    unfolding r demo_destroyed by simp
  show ?thesis using a n e t by blast
qed

subsection \<open>C6: a successful reset\<close>

text \<open>
  C6: after every \<^verbatim>\<open>unsafeResetDatabase(schema, schemaVersion)\<close> that returns, reading
  the schema version yields \<open>schemaVersion\<close>, and \<^verbatim>\<open>isCached\<close> is false for every key, in
  particular for every key marked before the reset.
\<close>

theorem reset_success:
  assumes "unsafeResetDatabase B schema schemaVersion s = (Returned, s')"
  shows "fst (getUserVersion B s') = schemaVersion
       \<and> (\<forall>k. k \<in> cachedRecords s \<longrightarrow> \<not> fst (isCached k s'))
       \<and> (\<forall>k. \<not> fst (isCached k s'))"
  using reset_returned[OF assms] by (simp add: getUserVersion_def isCached_def)

theorem reset_success_witness:
  "fst (unsafeResetDatabase demoBackend ''CREATE TABLE u(id INTEGER)'' 7 demoSession) = Returned
 \<and> ''t$1'' \<in> cachedRecords demoSession
 \<and> fst (getUserVersion demoBackend
      (snd (unsafeResetDatabase demoBackend ''CREATE TABLE u(id INTEGER)'' 7 demoSession))) = 7
 \<and> \<not> fst (isCached ''t$1''
      (snd (unsafeResetDatabase demoBackend ''CREATE TABLE u(id INTEGER)'' 7 demoSession)))"
proof -
  let ?s' = "snd (unsafeResetDatabase demoBackend ''CREATE TABLE u(id INTEGER)'' 7 demoSession)"
  have m: "unsafeResetDatabase demoBackend ''CREATE TABLE u(id INTEGER)'' 7 demoSession = (Returned, ?s')"
    by (simp add: demo_reset_ok)
  have f: "fst (unsafeResetDatabase demoBackend ''CREATE TABLE u(id INTEGER)'' 7 demoSession) = Returned"
    by (simp add: demo_reset_ok)
  have k: "''t$1'' \<in> cachedRecords demoSession" by (simp add: demoSession_def)
  show ?thesis using f k reset_success[OF m] by blast
qed

subsection \<open>C7: the cipher pragmas come first\<close>




subsection \<open>C8: the record cache follows the last mutation\<close>

text \<open>
  C8: after \<^verbatim>\<open>markAsCached(k)\<close>, however many cache calls follow that do not mutate
  \<open>k\<close>, \<^verbatim>\<open>isCached(k)\<close> is true; after \<^verbatim>\<open>removeFromCache(k)\<close> it is false. Marking
  twice is marking once, removing an absent key changes nothing, and \<^verbatim>\<open>isCached\<close>
  leaves the state as it is.
\<close>

theorem cache_reflects_last_mutation:
  assumes "MarkAsCached k \<notin> set ops" and "RemoveFromCache k \<notin> set ops"
  shows "fst (isCached k (runCacheOps ops (markAsCached k s)))
       \<and> \<not> fst (isCached k (runCacheOps ops (removeFromCache k s)))
       \<and> markAsCached k (markAsCached k s) = markAsCached k s
       \<and> (\<not> fst (isCached k s) \<longrightarrow> removeFromCache k s = s)
       \<and> snd (isCached k s) = s"
  using runCacheOps_member[OF assms, of "markAsCached k s"]
        runCacheOps_member[OF assms, of "removeFromCache k s"]
  by (simp add: isCached_def markAsCached_def removeFromCache_def)

theorem cache_reflects_last_mutation_witness:
  "MarkAsCached ''a'' \<notin> set [IsCached ''a'', RemoveFromCache ''b'', MarkAsCached ''b'', IsCached ''b'']
 \<and> RemoveFromCache ''a'' \<notin> set [IsCached ''a'', RemoveFromCache ''b'', MarkAsCached ''b'', IsCached ''b'']
 \<and> fst (isCached ''a'' (runCacheOps [IsCached ''a'', RemoveFromCache ''b'', MarkAsCached ''b'', IsCached ''b'']
                          (markAsCached ''a'' demoSession)))
 \<and> \<not> fst (isCached ''a'' (runCacheOps [IsCached ''a'', RemoveFromCache ''b'', MarkAsCached ''b'', IsCached ''b'']
                          (removeFromCache ''a'' demoSession)))
 \<and> \<not> fst (isCached ''a'' demoSession)
 \<and> removeFromCache ''a'' demoSession = demoSession"
proof -
  let ?ops = "[IsCached ''a'', RemoveFromCache ''b'', MarkAsCached ''b'', IsCached ''b'']"
  have 1: "MarkAsCached ''a'' \<notin> set ?ops" by simp
  have 2: "RemoveFromCache ''a'' \<notin> set ?ops" by simp
  have 3: "\<not> fst (isCached ''a'' demoSession)" by (simp add: isCached_def demoSession_def)
  show ?thesis
    using 1 2 3 cache_reflects_last_mutation[OF 1 2, of demoSession]
    by blast
qed

subsection \<open>C9: statements are finalized before the handle is closed\<close>

text \<open>
  C9: when \<^verbatim>\<open>destroy\<close> runs on a session that is not yet destroyed, what it does is:
  take the guard, finalize every statement of the statement cache, in the cache's
  order and whatever the engine answers to each finalization, then close the engine
  handle, then release the guard.
\<close>

theorem destroy_order:
  assumes "\<not> isDestroyed s"
  shows "newEvents s (destroy B s) =
           Lock # map (\<lambda>cs. Call (Finalize (snd cs)) (fault B (db s) (Finalize (snd cs))))
                      (cachedStatements s)
           @ [Call Close None, Unlock]"
  using assms by (simp add: destroy_live)

theorem destroy_order_witness:
  "\<not> isDestroyed demoSession
 \<and> newEvents demoSession (destroy demoBackend demoSession) =
      [Lock, Call (Finalize 11) (Some (SqlError ''finalize'')), Call (Finalize 12) None,
       Call Close None, Unlock]"
proof -
  have a: "\<not> isDestroyed demoSession" by (simp add: demoSession_def)
  show ?thesis
    using a destroy_order[OF a, of demoBackend]
    by (simp add: demo_defs)
qed

subsection \<open>C10: the password is spliced in as it is\<close>




end
